theory Spec2Isabelle
  imports Main "HOL-Library.Sublist"
begin

section \<open>The resource lifecycle waiter\<close>

text \<open>
  The notebook polls every asynchronous resource through \<open>util.wait\<close>, a helper of
  \<open>notebooks/common/util.py\<close>. That module is not among the sources of the
  notebook, so the waiter of this section is written from the specification of the
  Resource Lifecycle Waiter: a probe is called again and again, one polling interval
  apart, until it reports a success-terminal status, a failure-terminal status, or the
  maximum wait budget is used up.
\<close>

text \<open>The lifecycle of an asynchronous resource:
  \<open>CREATE_PENDING \<rightarrow> CREATE_IN_PROGRESS \<rightarrow> ACTIVE | CREATE_FAILED\<close>.\<close>

datatype lifecycle_status = CREATE_PENDING | CREATE_IN_PROGRESS | ACTIVE | CREATE_FAILED

definition success_set :: "lifecycle_status list" where
  "success_set = [ACTIVE]"

definition failure_set :: "lifecycle_status list" where
  "failure_set = [CREATE_FAILED]"

text \<open>What the waiter signals: success, an explicit failure, or a timeout.\<close>

datatype wait_outcome = Success | Failure | Timeout

text \<open>
  A probe is a zero-argument operation that is called repeatedly; \<open>probe i\<close> is the
  status carried by the response to its \<open>i\<close>-th call (counted from 0).
\<close>

type_synonym probe = "nat \<Rightarrow> lifecycle_status"

text \<open>
  Modelled from the spec: the body of \<open>util.wait\<close> (\<open>notebooks/common/util.py\<close>) is
  missing. \<open>wait_from probe budget i\<close> is the polling loop about to issue call number
  \<open>i\<close> with \<open>budget\<close> polling intervals left; the interval is fixed, so the maximum
  wait budget is counted in probes. The result is the signalled outcome and the
  statuses observed, one per probe call issued, in order.
\<close>

fun wait_from :: "probe \<Rightarrow> nat \<Rightarrow> nat \<Rightarrow> wait_outcome \<times> lifecycle_status list" where
  "wait_from probe 0 i = (Timeout, [])"
| "wait_from probe (Suc budget) i =
     (let st = probe i in
      if st \<in> set success_set then (Success, [st])
      else if st \<in> set failure_set then (Failure, [st])
      else (case wait_from probe budget (Suc i) of (out, seen) \<Rightarrow> (out, st # seen)))"

text \<open>Modelled from the spec: \<open>util.wait\<close> itself, which starts with the first probe call.\<close>

definition wait :: "probe \<Rightarrow> nat \<Rightarrow> wait_outcome \<times> lifecycle_status list" where
  "wait probe budget = wait_from probe budget 0"

definition terminal :: "lifecycle_status \<Rightarrow> bool" where
  "terminal st \<longleftrightarrow> st \<in> set success_set \<or> st \<in> set failure_set"

text \<open>Two probes used as concrete inputs: one fails at its third call, one never ends.\<close>

definition probe_fails_third :: probe where
  "probe_fails_third i = (if i = 0 then CREATE_PENDING
                          else if i = 1 then CREATE_IN_PROGRESS
                          else if i = 2 then CREATE_FAILED else ACTIVE)"

definition probe_never_done :: probe where
  "probe_never_done i = (if i = 0 then CREATE_PENDING else CREATE_IN_PROGRESS)"

section \<open>The notebook\<close>

text \<open>
  The notebook \<open>Forecast with Cold Start Items\<close> is a straight-line script: its code
  cells run top to bottom, and a failed \<open>assert\<close> ends the run. Everything it does
  to the outside world is a call on a service client or on a helper of \<open>util\<close>.
  The model runs the cells in order over a record of the notebook's variables and
  keeps a log of the outside interactions, in the order they are issued.
\<close>

subsection \<open>Requests\<close>

text \<open>One attribute of a dataset schema:
  \<open>{"AttributeName": \<dots>, "AttributeType": \<dots>}\<close>.\<close>

record attribute =
  AttributeName :: string
  AttributeType :: string

text \<open>
  The service operations the notebook calls, with the keyword arguments in the order
  the notebook writes them:
  \<^item> \<open>upload_file Filename Bucket Key\<close>
  \<^item> \<open>create_dataset_group Domain DatasetGroupName DatasetArns\<close>
  \<^item> \<open>create_dataset Domain DatasetType DatasetName DataFrequency Schema\<close>
    (the item metadata dataset passes no \<open>DataFrequency\<close>)
  \<^item> \<open>update_dataset_group DatasetGroupArn DatasetArns\<close>
  \<^item> \<open>create_dataset_import_job DatasetImportJobName DatasetArn Path RoleArn
    TimestampFormat\<close> (the item metadata import passes no \<open>TimestampFormat\<close>)
  \<^item> \<open>create_predictor PredictorName AlgorithmArn ForecastHorizon PerformAutoML
    PerformHPO DatasetGroupArn ForecastFrequency\<close>
  \<^item> \<open>create_forecast ForecastName PredictorArn\<close>
  \<^item> \<open>query_forecast ForecastArn Filters\<close>
  \<^item> \<open>create_forecast_export_job ForecastExportJobName ForecastArn Path RoleArn\<close>
  \<^item> every \<open>describe_*\<close> and \<open>delete_*\<close> operation takes the ARN of its resource.
\<close>

datatype call =
    get_caller_identity
  | upload_file string string string
  | create_dataset_group string string "string list"
  | describe_dataset_group string
  | create_dataset string string string "string option" "attribute list"
  | describe_dataset string
  | update_dataset_group string "string list"
  | create_dataset_import_job string string string string "string option"
  | describe_dataset_import_job string
  | create_predictor string string int bool bool string string
  | describe_predictor string
  | create_forecast string string
  | describe_forecast string
  | query_forecast string "(string \<times> string) list"
  | create_forecast_export_job string string string string
  | describe_forecast_export_job string
  | delete_forecast_export_job string
  | delete_forecast string
  | delete_predictor string
  | delete_dataset_import_job string
  | delete_dataset string
  | delete_dataset_group string

text \<open>
  The log of a run. \<open>Session r\<close> is \<open>boto3.Session(region_name=r)\<close>, \<open>Client n\<close> the
  construction of the client of service \<open>n\<close>, \<open>Role\<close> the helper
  \<open>util.get_or_create_role_arn()\<close>. \<open>Called c\<close> is a call whose response the
  notebook does not keep; \<open>Created c a\<close> is a \<open>create_*\<close> call together with the
  ARN that the notebook reads from its response. \<open>Waited p r\<close> is
  \<open>util.wait(lambda: p)\<close> with the truth value \<open>r\<close> of what it returned, and
  \<open>Wait_till_delete c\<close> is \<open>util.wait_till_delete(lambda: c)\<close>.
\<close>

datatype event =
    Session string
  | Client string
  | Role
  | Called call
  | Created call string
  | Waited call bool
  | Wait_till_delete call

datatype error = AssertionError string

text \<open>
  What a run depends on and the notebook does not decide: the two values typed into
  the text widgets, the role ARN the helper returns, and the behaviour of the remote
  service. The helpers of \<open>util\<close> and the service are not part of the notebook, so
  they enter as parameters: \<open>create_response env n\<close> is the ARN carried by the
  response to the \<open>create_*\<close> call that is interaction number \<open>n\<close> of the run, and
  \<open>util_wait env n\<close> is the truth value of the object returned by the call of
  \<open>util.wait\<close> that is interaction number \<open>n\<close> (true for success: the notebook
  tests it with \<open>assert status\<close>). Calls are taken to return; the only exceptions
  of the model are the notebook's own assertions.
\<close>

record env =
  text_widget_bucket :: string
  text_widget_region :: string
  get_or_create_role_arn :: string
  create_response :: "nat \<Rightarrow> string"
  util_wait :: "nat \<Rightarrow> bool"

text \<open>
  The notebook's variables that hold configuration, identifiers and the last wait
  status, the log, and the exception that ended the run, if any. A variable that is
  not assigned yet holds the empty value; the script never reads one before assigning it.
\<close>

record nb =
  bucketName :: string
  region :: string
  role_arn :: string
  dataset_group_arn :: string
  ts_dataset_arn :: string
  meta_dataset_arn :: string
  dataset_arns :: "string list"
  ts_dataset_import_job_arn :: string
  meta_dataset_import_job_arn :: string
  predictor_arn_deep_ar :: string
  forecast_arn_deep_ar :: string
  ts_cold_start_dataset_import_job_arn :: string
  forecast_arn_deep_ar_2 :: string
  forecast_export_arn_deep_ar :: string
  status :: bool
  trace :: "event list"
  halted :: "error option"

subsection \<open>Constants of the notebook\<close>

text \<open>Python's \<open>str.lower\<close> on ASCII text.\<close>

definition lower :: "string \<Rightarrow> string" where
  "lower = map (\<lambda>c. let n = (of_char c :: nat) in
                      if 65 \<le> n \<and> n \<le> 90 then char_of (n + 32) else c)"

definition localFilePath :: string where
  "localFilePath = ''data/test.csv''"

definition localItemMetaDataFilePath :: string where
  "localItemMetaDataFilePath = ''data/itemMetaData.csv''"

definition targetTimeseriesDatakey :: string where
  "targetTimeseriesDatakey = ''cold-start/test.csv''"

definition itemMetaDatakey :: string where
  "itemMetaDatakey = ''cold-start/itemMetaData.csv''"

definition project :: string where
  "project = ''coldstart_demo''"

definition freq :: string where
  "freq = ''H''"

definition forecast_horizon :: int where
  "forecast_horizon = 48"

definition timestamp_format :: string where
  "timestamp_format = ''yyyy-MM-dd HH:mm:ss''"

definition dataset_group :: string where
  "dataset_group = project @ ''_grp''"

definition ts_dataset_name :: string where
  "ts_dataset_name = project @ ''_ts''"

definition ts_schema_val :: "attribute list" where
  "ts_schema_val =
     [\<lparr>AttributeName = ''timestamp'', AttributeType = ''timestamp''\<rparr>,
      \<lparr>AttributeName = ''target_value'', AttributeType = ''float''\<rparr>,
      \<lparr>AttributeName = ''item_id'', AttributeType = ''string''\<rparr>]"

definition item_metadata_dataset_name :: string where
  "item_metadata_dataset_name = project @ ''_meta''"

definition meta_schema_val :: "attribute list" where
  "meta_schema_val =
     [\<lparr>AttributeName = ''item_id'', AttributeType = ''string''\<rparr>,
      \<lparr>AttributeName = ''category'', AttributeType = ''string''\<rparr>]"

definition algorithm_arn :: string where
  "algorithm_arn = ''arn:aws:forecast:::algorithm/''"

definition algorithm :: string where
  "algorithm = ''Deep_AR_Plus''"

definition algorithm_arn_deep_ar_plus :: string where
  "algorithm_arn_deep_ar_plus = algorithm_arn @ algorithm"

definition predictor_name_deep_ar :: string where
  "predictor_name_deep_ar = project @ ''_'' @ lower algorithm"

definition forecast_name_deep_ar :: string where
  "forecast_name_deep_ar = project @ ''_deep_ar_plus_2''"

definition localColdStartDataFilePath :: string where
  "localColdStartDataFilePath = ''data/coldStartTargetData.csv''"

definition coldStartTargetTimeseriesDatakey :: string where
  "coldStartTargetTimeseriesDatakey = ''cold-start/coldStartTargetData.csv''"

definition forecast_name_deep_ar_2 :: string where
  "forecast_name_deep_ar_2 = project @ ''_deep_ar_plus_3''"

definition forecast_export_name_deep_ar :: string where
  "forecast_export_name_deep_ar = project @ ''_cold_start_forecast_export_deep_ar_plus''"

definition s3_data_path :: "nb \<Rightarrow> string" where
  "s3_data_path s = ''s3://'' @ bucketName s @ ''/''"

definition forecast_export_name_deep_ar_path :: "nb \<Rightarrow> string" where
  "forecast_export_name_deep_ar_path s = s3_data_path s @ ''/'' @ forecast_export_name_deep_ar"

subsection \<open>Statements\<close>

text \<open>An interaction with the outside is appended to the log.\<close>

definition emit :: "event \<Rightarrow> nb \<Rightarrow> nb" where
  "emit e s = s\<lparr>trace := trace s @ [e]\<rparr>"

text \<open>The ARN in the response to a \<open>create_*\<close> call issued now.\<close>

definition response :: "env \<Rightarrow> nb \<Rightarrow> string" where
  "response env s = create_response env (length (trace s))"

text \<open>\<open>status = util.wait(lambda: probe)\<close>\<close>

definition util_wait_status :: "env \<Rightarrow> call \<Rightarrow> nb \<Rightarrow> nb" where
  "util_wait_status env probe s =
     (let r = util_wait env (length (trace s))
      in (emit (Waited probe r) s)\<lparr>status := r\<rparr>)"

text \<open>\<open>assert status\<close>\<close>

definition assert_status :: "nb \<Rightarrow> nb" where
  "assert_status s = (if status s then s else s\<lparr>halted := Some (AssertionError [])\<rparr>)"

subsection \<open>The code cells\<close>

text \<open>
  Each definition is one code cell of the notebook (a \<open>create_*\<close> call and the cell
  that reads the ARN from its response are taken together), named after the step of the
  notebook it belongs to. The cells that only read local files, print or plot
  (\<open>util.extract_gz\<close>, \<open>pd.read_csv\<close>, \<open>plt.plot\<close>, \<open>print\<close>) and the two
  text widgets do not reach a service and are not listed.
\<close>

text \<open>Step 0: \<open>bucketName = text_widget_bucket.value; assert bucketName, \<dots>;
  region = text_widget_region.value; assert region, \<dots>\<close>\<close>

definition step0_config :: "env \<Rightarrow> nb \<Rightarrow> nb" where
  "step0_config env s =
     (let s1 = s\<lparr>bucketName := text_widget_bucket env\<rparr> in
      if bucketName s1 = []
      then s1\<lparr>halted := Some (AssertionError ''bucketName not set.'')\<rparr>
      else let s2 = s1\<lparr>region := text_widget_region env\<rparr> in
        if region s2 = []
        then s2\<lparr>halted := Some (AssertionError ''region not set.'')\<rparr>
        else s2)"

definition step0_clients :: "env \<Rightarrow> nb \<Rightarrow> nb" where
  "step0_clients env s =
     (let s1 = emit (Session (region s)) s;
          s2 = emit (Client ''forecast'') s1
      in emit (Client ''forecastquery'') s2)"

definition step0_role :: "env \<Rightarrow> nb \<Rightarrow> nb" where
  "step0_role env s = (emit Role s)\<lparr>role_arn := get_or_create_role_arn env\<rparr>"

text \<open>Step 1: the CSV files are uploaded to the bucket.\<close>

definition step1_s3_client :: "env \<Rightarrow> nb \<Rightarrow> nb" where
  "step1_s3_client env s = emit (Client ''s3'') s"

definition step1_account :: "env \<Rightarrow> nb \<Rightarrow> nb" where
  "step1_account env s =
     (let s1 = emit (Client ''sts'') s in emit (Called get_caller_identity) s1)"

definition step1_upload_target :: "env \<Rightarrow> nb \<Rightarrow> nb" where
  "step1_upload_target env s =
     emit (Called (upload_file localFilePath (bucketName s) targetTimeseriesDatakey)) s"

definition step1_upload_meta :: "env \<Rightarrow> nb \<Rightarrow> nb" where
  "step1_upload_meta env s =
     emit (Called (upload_file localItemMetaDataFilePath (bucketName s) itemMetaDatakey)) s"

text \<open>Step 2a: the dataset group, created empty.\<close>

definition step2a_create_dataset_group :: "env \<Rightarrow> nb \<Rightarrow> nb" where
  "step2a_create_dataset_group env s =
     (let s1 = s\<lparr>dataset_arns := []\<rparr>;
          c = create_dataset_group ''CUSTOM'' dataset_group (dataset_arns s1);
          a = response env s1
      in (emit (Created c a) s1)\<lparr>dataset_group_arn := a\<rparr>)"

definition step2a_describe :: "env \<Rightarrow> nb \<Rightarrow> nb" where
  "step2a_describe env s = emit (Called (describe_dataset_group (dataset_group_arn s))) s"

text \<open>Step 2b: the target time series dataset.\<close>

definition step2b_create_dataset :: "env \<Rightarrow> nb \<Rightarrow> nb" where
  "step2b_create_dataset env s =
     (let c = create_dataset ''CUSTOM'' ''TARGET_TIME_SERIES'' ts_dataset_name (Some freq)
                ts_schema_val;
          a = response env s
      in (emit (Created c a) s)\<lparr>ts_dataset_arn := a\<rparr>)"

definition step2b_describe :: "env \<Rightarrow> nb \<Rightarrow> nb" where
  "step2b_describe env s = emit (Called (describe_dataset (ts_dataset_arn s))) s"

text \<open>Step 2c: the item metadata dataset.\<close>

definition step2c_create_dataset :: "env \<Rightarrow> nb \<Rightarrow> nb" where
  "step2c_create_dataset env s =
     (let c = create_dataset ''CUSTOM'' ''ITEM_METADATA'' item_metadata_dataset_name None
                meta_schema_val;
          a = response env s
      in (emit (Created c a) s)\<lparr>meta_dataset_arn := a\<rparr>)"

definition step2c_describe :: "env \<Rightarrow> nb \<Rightarrow> nb" where
  "step2c_describe env s = emit (Called (describe_dataset (meta_dataset_arn s))) s"

text \<open>Step 2d: \<open>dataset_arns = []\<close>, two \<open>append\<close>s, \<open>update_dataset_group\<close>.\<close>

definition step2d_update_dataset_group :: "env \<Rightarrow> nb \<Rightarrow> nb" where
  "step2d_update_dataset_group env s =
     (let s1 = s\<lparr>dataset_arns := []\<rparr>;
          s2 = s1\<lparr>dataset_arns := dataset_arns s1 @ [ts_dataset_arn s1]\<rparr>;
          s3 = s2\<lparr>dataset_arns := dataset_arns s2 @ [meta_dataset_arn s2]\<rparr>
      in emit (Called (update_dataset_group (dataset_group_arn s3) (dataset_arns s3))) s3)"

definition step2d_describe :: "env \<Rightarrow> nb \<Rightarrow> nb" where
  "step2d_describe env s = emit (Called (describe_dataset_group (dataset_group_arn s))) s"

text \<open>Step 2e: the import job of the target time series, and the wait for it.\<close>

definition step2e_create_import_job :: "env \<Rightarrow> nb \<Rightarrow> nb" where
  "step2e_create_import_job env s =
     (let c = create_dataset_import_job dataset_group (ts_dataset_arn s)
                (''s3://'' @ bucketName s @ ''/'' @ targetTimeseriesDatakey) (role_arn s)
                (Some timestamp_format);
          a = response env s
      in (emit (Created c a) s)\<lparr>ts_dataset_import_job_arn := a\<rparr>)"

definition step2e_wait :: "env \<Rightarrow> nb \<Rightarrow> nb" where
  "step2e_wait env s =
     assert_status
       (util_wait_status env (describe_dataset_import_job (ts_dataset_import_job_arn s)) s)"

text \<open>Step 2f: the import job of the item metadata, and the wait for it.\<close>

definition step2f_create_import_job :: "env \<Rightarrow> nb \<Rightarrow> nb" where
  "step2f_create_import_job env s =
     (let c = create_dataset_import_job dataset_group (meta_dataset_arn s)
                (''s3://'' @ bucketName s @ ''/'' @ itemMetaDatakey) (role_arn s) None;
          a = response env s
      in (emit (Created c a) s)\<lparr>meta_dataset_import_job_arn := a\<rparr>)"

definition step2f_wait :: "env \<Rightarrow> nb \<Rightarrow> nb" where
  "step2f_wait env s =
     assert_status
       (util_wait_status env (describe_dataset_import_job (meta_dataset_import_job_arn s)) s)"

text \<open>Step 3: the predictor.\<close>

definition step3_create_predictor :: "env \<Rightarrow> nb \<Rightarrow> nb" where
  "step3_create_predictor env s =
     (let c = create_predictor predictor_name_deep_ar algorithm_arn_deep_ar_plus
                forecast_horizon False False (dataset_group_arn s) freq;
          a = response env s
      in (emit (Created c a) s)\<lparr>predictor_arn_deep_ar := a\<rparr>)"

definition step3_wait :: "env \<Rightarrow> nb \<Rightarrow> nb" where
  "step3_wait env s =
     assert_status (util_wait_status env (describe_predictor (predictor_arn_deep_ar s)) s)"

definition step3_describe :: "env \<Rightarrow> nb \<Rightarrow> nb" where
  "step3_describe env s = emit (Called (describe_predictor (predictor_arn_deep_ar s))) s"

text \<open>Step 4: the first forecast.\<close>

definition step4_create_forecast :: "env \<Rightarrow> nb \<Rightarrow> nb" where
  "step4_create_forecast env s =
     (let c = create_forecast forecast_name_deep_ar (predictor_arn_deep_ar s);
          a = response env s
      in (emit (Created c a) s)\<lparr>forecast_arn_deep_ar := a\<rparr>)"

definition step4_wait :: "env \<Rightarrow> nb \<Rightarrow> nb" where
  "step4_wait env s =
     assert_status (util_wait_status env (describe_forecast (forecast_arn_deep_ar s)) s)"

definition step4_describe :: "env \<Rightarrow> nb \<Rightarrow> nb" where
  "step4_describe env s = emit (Called (describe_forecast (forecast_arn_deep_ar s))) s"

text \<open>Step 5: the cold-start data is uploaded and imported into the target dataset.\<close>

definition step5_upload_cold_start :: "env \<Rightarrow> nb \<Rightarrow> nb" where
  "step5_upload_cold_start env s =
     emit (Called (upload_file localColdStartDataFilePath (bucketName s)
                     coldStartTargetTimeseriesDatakey)) s"

definition step5_create_import_job :: "env \<Rightarrow> nb \<Rightarrow> nb" where
  "step5_create_import_job env s =
     (let c = create_dataset_import_job (dataset_group @ ''_2'') (ts_dataset_arn s)
                (''s3://'' @ bucketName s @ ''/'' @ coldStartTargetTimeseriesDatakey)
                (role_arn s) (Some timestamp_format);
          a = response env s
      in (emit (Created c a) s)\<lparr>ts_cold_start_dataset_import_job_arn := a\<rparr>)"

definition step5_describe :: "env \<Rightarrow> nb \<Rightarrow> nb" where
  "step5_describe env s =
     emit (Called (describe_dataset_import_job (ts_cold_start_dataset_import_job_arn s))) s"

definition step5_wait :: "env \<Rightarrow> nb \<Rightarrow> nb" where
  "step5_wait env s =
     assert_status
       (util_wait_status env
          (describe_dataset_import_job (ts_cold_start_dataset_import_job_arn s)) s)"

text \<open>Step 6: the forecast for the cold-start items.\<close>

definition step6_create_forecast :: "env \<Rightarrow> nb \<Rightarrow> nb" where
  "step6_create_forecast env s =
     (let c = create_forecast forecast_name_deep_ar_2 (predictor_arn_deep_ar s);
          a = response env s
      in (emit (Created c a) s)\<lparr>forecast_arn_deep_ar_2 := a\<rparr>)"

definition step6_wait :: "env \<Rightarrow> nb \<Rightarrow> nb" where
  "step6_wait env s =
     assert_status (util_wait_status env (describe_forecast (forecast_arn_deep_ar_2 s)) s)"

definition step6_describe :: "env \<Rightarrow> nb \<Rightarrow> nb" where
  "step6_describe env s = emit (Called (describe_forecast (forecast_arn_deep_ar_2 s))) s"

text \<open>Step 7: the query.\<close>

definition step7_query_forecast :: "env \<Rightarrow> nb \<Rightarrow> nb" where
  "step7_query_forecast env s =
     emit (Called (query_forecast (forecast_arn_deep_ar_2 s)
                     [(''item_id'', ''client_370'')])) s"

text \<open>Step 8: the export.\<close>

definition step8_create_export_job :: "env \<Rightarrow> nb \<Rightarrow> nb" where
  "step8_create_export_job env s =
     (let c = create_forecast_export_job forecast_export_name_deep_ar
                (forecast_arn_deep_ar_2 s) (forecast_export_name_deep_ar_path s) (role_arn s);
          a = response env s
      in (emit (Created c a) s)\<lparr>forecast_export_arn_deep_ar := a\<rparr>)"

definition step8_wait :: "env \<Rightarrow> nb \<Rightarrow> nb" where
  "step8_wait env s =
     assert_status
       (util_wait_status env (describe_forecast_export_job (forecast_export_arn_deep_ar s)) s)"

text \<open>Step 9: the cleanup.\<close>

definition step9_delete_export :: "env \<Rightarrow> nb \<Rightarrow> nb" where
  "step9_delete_export env s =
     emit (Wait_till_delete (delete_forecast_export_job (forecast_export_arn_deep_ar s))) s"

definition step9_delete_forecasts :: "env \<Rightarrow> nb \<Rightarrow> nb" where
  "step9_delete_forecasts env s =
     (let s1 = emit (Wait_till_delete (delete_forecast (forecast_arn_deep_ar s))) s
      in emit (Wait_till_delete (delete_forecast (forecast_arn_deep_ar_2 s1))) s1)"

definition step9_delete_predictor :: "env \<Rightarrow> nb \<Rightarrow> nb" where
  "step9_delete_predictor env s =
     emit (Wait_till_delete (delete_predictor (predictor_arn_deep_ar s))) s"

definition step9_delete_import_jobs :: "env \<Rightarrow> nb \<Rightarrow> nb" where
  "step9_delete_import_jobs env s =
     (let s1 = emit (Wait_till_delete
                       (delete_dataset_import_job (ts_dataset_import_job_arn s))) s;
          s2 = emit (Wait_till_delete
                       (delete_dataset_import_job (meta_dataset_import_job_arn s1))) s1
      in emit (Wait_till_delete
                 (delete_dataset_import_job (ts_cold_start_dataset_import_job_arn s2))) s2)"

definition step9_delete_datasets :: "env \<Rightarrow> nb \<Rightarrow> nb" where
  "step9_delete_datasets env s =
     (let s1 = emit (Wait_till_delete (delete_dataset (ts_dataset_arn s))) s
      in emit (Wait_till_delete (delete_dataset (meta_dataset_arn s1))) s1)"

definition step9_delete_dataset_group :: "env \<Rightarrow> nb \<Rightarrow> nb" where
  "step9_delete_dataset_group env s =
     emit (Called (delete_dataset_group (dataset_group_arn s))) s"

subsection \<open>Running the notebook\<close>

definition cells :: "(env \<Rightarrow> nb \<Rightarrow> nb) list" where
  "cells =
     [step0_config, step0_clients, step0_role,
      step1_s3_client, step1_account, step1_upload_target, step1_upload_meta,
      step2a_create_dataset_group, step2a_describe,
      step2b_create_dataset, step2b_describe,
      step2c_create_dataset, step2c_describe,
      step2d_update_dataset_group, step2d_describe,
      step2e_create_import_job, step2e_wait,
      step2f_create_import_job, step2f_wait,
      step3_create_predictor, step3_wait, step3_describe,
      step4_create_forecast, step4_wait, step4_describe,
      step5_upload_cold_start, step5_create_import_job, step5_describe, step5_wait,
      step6_create_forecast, step6_wait, step6_describe,
      step7_query_forecast,
      step8_create_export_job, step8_wait,
      step9_delete_export, step9_delete_forecasts, step9_delete_predictor,
      step9_delete_import_jobs, step9_delete_datasets, step9_delete_dataset_group]"

text \<open>The seven cells that wait for an asynchronous resource.\<close>

definition wait_cells :: "(env \<Rightarrow> nb \<Rightarrow> nb) list" where
  "wait_cells =
     [step2e_wait, step2f_wait, step3_wait, step4_wait, step5_wait, step6_wait, step8_wait]"

text \<open>Cells run in order; the exception of a cell ends the run.\<close>

fun run_cells :: "(env \<Rightarrow> nb \<Rightarrow> nb) list \<Rightarrow> env \<Rightarrow> nb \<Rightarrow> nb" where
  "run_cells [] env s = s"
| "run_cells (c # cs) env s =
     (let s1 = c env s in if halted s1 = None then run_cells cs env s1 else s1)"

definition fresh :: nb where
  "fresh = \<lparr>bucketName = [], region = [], role_arn = [], dataset_group_arn = [],
     ts_dataset_arn = [], meta_dataset_arn = [], dataset_arns = [],
     ts_dataset_import_job_arn = [], meta_dataset_import_job_arn = [],
     predictor_arn_deep_ar = [], forecast_arn_deep_ar = [],
     ts_cold_start_dataset_import_job_arn = [], forecast_arn_deep_ar_2 = [],
     forecast_export_arn_deep_ar = [], status = False, trace = [], halted = None\<rparr>"

definition notebook :: "env \<Rightarrow> nb" where
  "notebook env = run_cells cells env fresh"

definition run_log :: "env \<Rightarrow> event list" where
  "run_log env = trace (notebook env)"

text \<open>
  A helper of the proofs: \<open>continue cs env s\<close> goes on with the cells \<open>cs\<close> unless
  the run has ended.
\<close>

definition continue :: "(env \<Rightarrow> nb \<Rightarrow> nb) list \<Rightarrow> env \<Rightarrow> nb \<Rightarrow> nb" where
  "continue cs env s1 = (if halted s1 = None then run_cells cs env s1 else s1)"

section \<open>Reading the log\<close>

text \<open>The kinds of resource the notebook creates, and the call that creates each.\<close>

datatype resource =
  Dataset_group | Dataset | Dataset_import_job | Predictor | Forecast | Forecast_export_job

fun makes :: "call \<Rightarrow> resource option" where
  "makes (create_dataset_group _ _ _) = Some Dataset_group"
| "makes (create_dataset _ _ _ _ _) = Some Dataset"
| "makes (create_dataset_import_job _ _ _ _ _) = Some Dataset_import_job"
| "makes (create_predictor _ _ _ _ _ _ _) = Some Predictor"
| "makes (create_forecast _ _) = Some Forecast"
| "makes (create_forecast_export_job _ _ _ _) = Some Forecast_export_job"
| "makes _ = None"

text \<open>
  Import jobs, predictors, forecasts and export jobs are created asynchronously: the
  \<open>create_*\<close> call returns at once and the resource becomes ready later.
\<close>

fun asynchronous :: "resource \<Rightarrow> bool" where
  "asynchronous Dataset_group = False"
| "asynchronous Dataset = False"
| "asynchronous _ = True"

fun describe :: "resource \<Rightarrow> string \<Rightarrow> call" where
  "describe Dataset_group a = describe_dataset_group a"
| "describe Dataset a = describe_dataset a"
| "describe Dataset_import_job a = describe_dataset_import_job a"
| "describe Predictor a = describe_predictor a"
| "describe Forecast a = describe_forecast a"
| "describe Forecast_export_job a = describe_forecast_export_job a"

text \<open>The \<open>describe_*\<close> operations only read the state of a resource.\<close>

fun read_only :: "call \<Rightarrow> bool" where
  "read_only (describe_dataset_group _) = True"
| "read_only (describe_dataset _) = True"
| "read_only (describe_dataset_import_job _) = True"
| "read_only (describe_predictor _) = True"
| "read_only (describe_forecast _) = True"
| "read_only (describe_forecast_export_job _) = True"
| "read_only _ = False"

text \<open>The four \<open>describe_*\<close> operations of the asynchronous resources.\<close>

fun polls :: "call \<Rightarrow> bool" where
  "polls (describe_dataset_import_job _) = True"
| "polls (describe_predictor _) = True"
| "polls (describe_forecast _) = True"
| "polls (describe_forecast_export_job _) = True"
| "polls _ = False"

fun is_create :: "event \<Rightarrow> bool" where
  "is_create (Created c a) = True"
| "is_create _ = False"

text \<open>
  The asynchronous operations in flight after a log: an operation starts with the
  \<open>create_*\<close> call of an asynchronous resource and is over when a wait on the
  \<open>describe_*\<close> call of that very resource has returned success. An operation is named
  by that \<open>describe_*\<close> call.
\<close>

fun track :: "call list \<Rightarrow> event \<Rightarrow> call list" where
  "track fl (Created c a) =
     (case makes c of
        Some k \<Rightarrow> if asynchronous k then fl @ [describe k a] else fl
      | None \<Rightarrow> fl)"
| "track fl (Waited p r) = (if r then removeAll p fl else fl)"
| "track fl _ = fl"

definition in_flight :: "event list \<Rightarrow> call list" where
  "in_flight t = foldl track [] t"

text \<open>The waits of a log, with their results.\<close>

fun waited :: "event \<Rightarrow> (call \<times> bool) list" where
  "waited (Waited p r) = [(p, r)]"
| "waited _ = []"

text \<open>
  The service calls that the notebook itself writes: direct calls, and the delete calls
  it hands to \<open>util.wait_till_delete\<close>.
\<close>

fun issued :: "event \<Rightarrow> call list" where
  "issued (Called c) = [c]"
| "issued (Created c a) = [c]"
| "issued (Wait_till_delete c) = [c]"
| "issued _ = []"

text \<open>
  The stages of the lifecycle in the order in which the overview of the flow lists them:
  create dataset group, create datasets, update group, import jobs, train predictor,
  generate forecast, query, export, and then the deletions: export job, forecasts,
  predictor, import jobs, datasets, dataset group. Reads of a resource, uploads and
  the identity call belong to no stage.
\<close>

fun lifecycle_stage :: "call \<Rightarrow> nat option" where
  "lifecycle_stage (create_dataset_group _ _ _) = Some 0"
| "lifecycle_stage (create_dataset _ _ _ _ _) = Some 1"
| "lifecycle_stage (update_dataset_group _ _) = Some 2"
| "lifecycle_stage (create_dataset_import_job _ _ _ _ _) = Some 3"
| "lifecycle_stage (create_predictor _ _ _ _ _ _ _) = Some 4"
| "lifecycle_stage (create_forecast _ _) = Some 5"
| "lifecycle_stage (query_forecast _ _) = Some 6"
| "lifecycle_stage (create_forecast_export_job _ _ _ _) = Some 7"
| "lifecycle_stage (delete_forecast_export_job _) = Some 8"
| "lifecycle_stage (delete_forecast _) = Some 9"
| "lifecycle_stage (delete_predictor _) = Some 10"
| "lifecycle_stage (delete_dataset_import_job _) = Some 11"
| "lifecycle_stage (delete_dataset _) = Some 12"
| "lifecycle_stage (delete_dataset_group _) = Some 13"
| "lifecycle_stage _ = None"

definition stages :: "event list \<Rightarrow> nat list" where
  "stages t = List.map_filter lifecycle_stage (concat (map issued t))"

text \<open>The order in which the cells of the notebook go through these stages.\<close>

definition script_order :: "nat list" where
  "script_order =
     [0, 1, 1, 2, 3, 3, 4, 5, 3, 5, 6, 7, 8, 9, 9, 10, 11, 11, 11, 12, 12, 13]"

text \<open>
  The identifiers of created resources that a call passes to the service. (The
  algorithm ARN of \<open>create_predictor\<close> and the role ARN name nothing that the notebook
  creates through the forecasting service.)
\<close>

fun uses :: "call \<Rightarrow> (resource \<times> string) list" where
  "uses (create_dataset_group _ _ arns) = map (Pair Dataset) arns"
| "uses (describe_dataset_group a) = [(Dataset_group, a)]"
| "uses (describe_dataset a) = [(Dataset, a)]"
| "uses (update_dataset_group g arns) = (Dataset_group, g) # map (Pair Dataset) arns"
| "uses (create_dataset_import_job _ d _ _ _) = [(Dataset, d)]"
| "uses (describe_dataset_import_job a) = [(Dataset_import_job, a)]"
| "uses (create_predictor _ _ _ _ _ g _) = [(Dataset_group, g)]"
| "uses (describe_predictor a) = [(Predictor, a)]"
| "uses (create_forecast _ p) = [(Predictor, p)]"
| "uses (describe_forecast a) = [(Forecast, a)]"
| "uses (query_forecast f _) = [(Forecast, f)]"
| "uses (create_forecast_export_job _ f _ _) = [(Forecast, f)]"
| "uses (describe_forecast_export_job a) = [(Forecast_export_job, a)]"
| "uses (delete_forecast_export_job a) = [(Forecast_export_job, a)]"
| "uses (delete_forecast a) = [(Forecast, a)]"
| "uses (delete_predictor a) = [(Predictor, a)]"
| "uses (delete_dataset_import_job a) = [(Dataset_import_job, a)]"
| "uses (delete_dataset a) = [(Dataset, a)]"
| "uses (delete_dataset_group a) = [(Dataset_group, a)]"
| "uses _ = []"

fun identifiers :: "event \<Rightarrow> (resource \<times> string) list" where
  "identifiers (Called c) = uses c"
| "identifiers (Created c a) = uses c"
| "identifiers (Waited p r) = uses p"
| "identifiers (Wait_till_delete c) = uses c"
| "identifiers _ = []"

text \<open>The resource an event creates, with the ARN the service gave it.\<close>

fun created :: "event \<Rightarrow> (resource \<times> string) list" where
  "created (Created c a) = (case makes c of Some k \<Rightarrow> [(k, a)] | None \<Rightarrow> [])"
| "created _ = []"

fun deletes :: "call \<Rightarrow> (resource \<times> string) list" where
  "deletes (delete_forecast_export_job a) = [(Forecast_export_job, a)]"
| "deletes (delete_forecast a) = [(Forecast, a)]"
| "deletes (delete_predictor a) = [(Predictor, a)]"
| "deletes (delete_dataset_import_job a) = [(Dataset_import_job, a)]"
| "deletes (delete_dataset a) = [(Dataset, a)]"
| "deletes (delete_dataset_group a) = [(Dataset_group, a)]"
| "deletes _ = []"

definition deleted :: "event list \<Rightarrow> (resource \<times> string) list" where
  "deleted t = concat (map deletes (concat (map issued t)))"

text \<open>The schema an event declares to the service: dataset type, then the attributes
  as pairs of name and type, in order.\<close>

fun declares :: "event \<Rightarrow> (string \<times> (string \<times> string) list) list" where
  "declares (Created (create_dataset _ typ _ _ sch) _) =
     [(typ, map (\<lambda>x. (AttributeName x, AttributeType x)) sch)]"
| "declares _ = []"

text \<open>
  The datasets of a dataset group, as the log tells them: the \<open>DatasetArns\<close> of the
  latest \<open>create_dataset_group\<close> or \<open>update_dataset_group\<close> for that group.
\<close>

fun membership :: "event \<Rightarrow> (string \<times> string list) list" where
  "membership (Created (create_dataset_group _ _ arns) g) = [(g, arns)]"
| "membership (Called (update_dataset_group g arns)) = [(g, arns)]"
| "membership _ = []"

definition members :: "event list \<Rightarrow> string \<Rightarrow> string list" where
  "members t g =
     (case map_of (rev (concat (map membership t))) g of Some arns \<Rightarrow> arns | None \<Rightarrow> [])"

text \<open>
  \<open>scan P f s t\<close> goes through the log \<open>t\<close> once, from the state \<open>s\<close> and with
  \<open>f\<close> taking every event into the state, and checks \<open>P\<close> at every event on the state
  reached before it.
\<close>

fun scan :: "('s \<Rightarrow> 'a \<Rightarrow> bool) \<Rightarrow> ('s \<Rightarrow> 'a \<Rightarrow> 's) \<Rightarrow> 's \<Rightarrow> 'a list \<Rightarrow> bool" where
  "scan P f s [] = True"
| "scan P f s (x # xs) = (P s x \<and> scan P f (f s x) xs)"

definition snoc :: "'a list \<Rightarrow> 'a \<Rightarrow> 'a list" where
  "snoc xs x = xs @ [x]"

definition collect :: "('a \<Rightarrow> 'b list) \<Rightarrow> 'b list \<Rightarrow> 'a \<Rightarrow> 'b list" where
  "collect g acc x = acc @ g x"

subsection \<open>The shape of a run\<close>

text \<open>
  The log that the cells write when no assertion fails, written out: the ARNs are those
  of the responses at the positions of the ten create calls, the wait results those
  at the positions of the seven waits.
\<close>

definition script :: "env \<Rightarrow> event list" where
  "script env =
     (let bucket = text_widget_bucket env;
          role = get_or_create_role_arn env;
          dsg = create_response env 9;
          ts = create_response env 11;
          meta = create_response env 13;
          ts_import = create_response env 17;
          meta_import = create_response env 19;
          predictor = create_response env 21;
          forecast_1 = create_response env 24;
          cold_import = create_response env 28;
          forecast_2 = create_response env 31;
          export = create_response env 35
      in [Session (text_widget_region env), Client ''forecast'', Client ''forecastquery'',
          Role, Client ''s3'', Client ''sts'', Called get_caller_identity,
          Called (upload_file localFilePath bucket targetTimeseriesDatakey),
          Called (upload_file localItemMetaDataFilePath bucket itemMetaDatakey),
          Created (create_dataset_group ''CUSTOM'' dataset_group []) dsg,
          Called (describe_dataset_group dsg),
          Created (create_dataset ''CUSTOM'' ''TARGET_TIME_SERIES'' ts_dataset_name
                     (Some freq) ts_schema_val) ts,
          Called (describe_dataset ts),
          Created (create_dataset ''CUSTOM'' ''ITEM_METADATA'' item_metadata_dataset_name
                     None meta_schema_val) meta,
          Called (describe_dataset meta),
          Called (update_dataset_group dsg [ts, meta]),
          Called (describe_dataset_group dsg),
          Created (create_dataset_import_job dataset_group ts
                     (''s3://'' @ bucket @ ''/'' @ targetTimeseriesDatakey) role
                     (Some timestamp_format)) ts_import,
          Waited (describe_dataset_import_job ts_import) (util_wait env 18),
          Created (create_dataset_import_job dataset_group meta
                     (''s3://'' @ bucket @ ''/'' @ itemMetaDatakey) role None) meta_import,
          Waited (describe_dataset_import_job meta_import) (util_wait env 20),
          Created (create_predictor predictor_name_deep_ar algorithm_arn_deep_ar_plus
                     forecast_horizon False False dsg freq) predictor,
          Waited (describe_predictor predictor) (util_wait env 22),
          Called (describe_predictor predictor),
          Created (create_forecast forecast_name_deep_ar predictor) forecast_1,
          Waited (describe_forecast forecast_1) (util_wait env 25),
          Called (describe_forecast forecast_1),
          Called (upload_file localColdStartDataFilePath bucket
                    coldStartTargetTimeseriesDatakey),
          Created (create_dataset_import_job (dataset_group @ ''_2'') ts
                     (''s3://'' @ bucket @ ''/'' @ coldStartTargetTimeseriesDatakey) role
                     (Some timestamp_format)) cold_import,
          Called (describe_dataset_import_job cold_import),
          Waited (describe_dataset_import_job cold_import) (util_wait env 30),
          Created (create_forecast forecast_name_deep_ar_2 predictor) forecast_2,
          Waited (describe_forecast forecast_2) (util_wait env 32),
          Called (describe_forecast forecast_2),
          Called (query_forecast forecast_2 [(''item_id'', ''client_370'')]),
          Created (create_forecast_export_job forecast_export_name_deep_ar forecast_2
                     (''s3://'' @ bucket @ ''//'' @ forecast_export_name_deep_ar) role) export,
          Waited (describe_forecast_export_job export) (util_wait env 36),
          Wait_till_delete (delete_forecast_export_job export),
          Wait_till_delete (delete_forecast forecast_1),
          Wait_till_delete (delete_forecast forecast_2),
          Wait_till_delete (delete_predictor predictor),
          Wait_till_delete (delete_dataset_import_job ts_import),
          Wait_till_delete (delete_dataset_import_job meta_import),
          Wait_till_delete (delete_dataset_import_job cold_import),
          Wait_till_delete (delete_dataset ts),
          Wait_till_delete (delete_dataset meta),
          Called (delete_dataset_group dsg)])"

text \<open>A wait that did not return success, and a log cut after the first of them.\<close>

fun failed :: "event \<Rightarrow> bool" where
  "failed (Waited p r) = (\<not> r)"
| "failed _ = False"

fun upto_failed_wait :: "event list \<Rightarrow> event list" where
  "upto_failed_wait [] = []"
| "upto_failed_wait (e # es) = (if failed e then [e] else e # upto_failed_wait es)"

text \<open>How a run ends.\<close>

definition verdict :: "env \<Rightarrow> error option" where
  "verdict env =
     (if text_widget_bucket env = [] then Some (AssertionError ''bucketName not set.'')
      else if text_widget_region env = [] then Some (AssertionError ''region not set.'')
      else if list_ex failed (script env) then Some (AssertionError [])
      else None)"

definition summary :: "nb \<Rightarrow> event list \<times> error option" where
  "summary s = (trace s, halted s)"

subsection \<open>Three concrete runs\<close>

text \<open>
  A service that answers the ten create calls of the notebook with ten different ARNs
  (the numbers are the positions of the calls in the log).
\<close>

definition arns :: "(nat \<times> string) list" where
  "arns = [(9, ''arn:dataset-group''), (11, ''arn:dataset-ts''), (13, ''arn:dataset-meta''),
           (17, ''arn:import-ts''), (19, ''arn:import-meta''), (21, ''arn:predictor''),
           (24, ''arn:forecast-1''), (28, ''arn:import-cold-start''), (31, ''arn:forecast-2''),
           (35, ''arn:export'')]"

text \<open>Every wait succeeds.\<close>

definition env_ok :: env where
  "env_ok = \<lparr>text_widget_bucket = ''my-bucket'', text_widget_region = ''us-west-2'',
     get_or_create_role_arn = ''arn:role'',
     create_response = (\<lambda>n. case map_of arns n of Some a \<Rightarrow> a | None \<Rightarrow> ''arn:other''),
     util_wait = (\<lambda>n. True)\<rparr>"

text \<open>The wait for the predictor (interaction 22) does not return success.\<close>

definition env_failed :: env where
  "env_failed = env_ok\<lparr>util_wait := (\<lambda>n. n \<noteq> 22)\<rparr>"

text \<open>The bucket name was left empty.\<close>

definition env_unset :: env where
  "env_unset = env_ok\<lparr>text_widget_bucket := []\<rparr>"

section \<open>Properties of the waiter\<close>

lemma wait_from_failure:
  "k < budget \<Longrightarrow> \<forall>j<k. \<not> terminal (probe (i + j)) \<Longrightarrow> probe (i + k) \<in> set failure_set
   \<Longrightarrow> wait_from probe budget i = (Failure, map probe [i..<Suc (i + k)])"
proof (induction budget arbitrary: i k)
  case 0
  then show ?case by simp
next
  case (Suc budget)
  show ?case
  proof (cases k)
    case 0
    with Suc.prems show ?thesis
      by (simp add: success_set_def failure_set_def)
  next
    case (Suc k')
    from Suc.prems(2) Suc have nt: "\<not> terminal (probe i)"
      by (metis add.right_neutral zero_less_Suc)
    have rest: "\<forall>j<k'. \<not> terminal (probe (Suc i + j))"
      using Suc.prems(2) Suc by auto
    have fl: "probe (Suc i + k') \<in> set failure_set"
      using Suc.prems(3) Suc by simp
    have kb: "k' < budget"
      using Suc.prems(1) Suc by simp
    have ih: "wait_from probe budget (Suc i) = (Failure, map probe [Suc i..<Suc (Suc i + k')])"
      by (rule Suc.IH [OF kb rest fl])
    have up: "[i..<Suc (i + k)] = i # [Suc i..<Suc (Suc i + k')]"
      using Suc by (simp add: upt_conv_Cons)
    have step: "wait_from probe (Suc budget) i =
        (case wait_from probe budget (Suc i) of (out, seen) \<Rightarrow> (out, probe i # seen))"
      using nt by (simp add: terminal_def Let_def)
    show ?thesis
      by (simp only: step ih up prod.case list.map)
  qed
qed

lemma wait_from_timeout:
  "\<forall>j<budget. \<not> terminal (probe (i + j))
   \<Longrightarrow> wait_from probe budget i = (Timeout, map probe [i..<i + budget])"
proof (induction budget arbitrary: i)
  case 0
  then show ?case by simp
next
  case (Suc budget)
  have nt: "\<not> terminal (probe i)"
    using Suc.prems by (metis add.right_neutral zero_less_Suc)
  have rest: "\<forall>j<budget. \<not> terminal (probe (Suc i + j))"
    using Suc.prems by auto
  have ih: "wait_from probe budget (Suc i) = (Timeout, map probe [Suc i..<Suc i + budget])"
    by (rule Suc.IH [OF rest])
  have up: "[i..<i + Suc budget] = i # [Suc i..<Suc i + budget]"
    by (simp add: upt_conv_Cons)
  have step: "wait_from probe (Suc budget) i =
      (case wait_from probe budget (Suc i) of (out, seen) \<Rightarrow> (out, probe i # seen))"
    using nt by (simp add: terminal_def Let_def)
  show ?case
    by (simp only: step ih up prod.case list.map)
qed

text \<open>
  C2. When the probe reports a failure-terminal status at its call number \<open>k\<close>, within
  the budget and with no terminal status before, the waiter returns the failure outcome
  and the probe calls it issued are exactly the calls \<open>0, \<dots>, k\<close>: the failing status is
  the last one observed, and no probe follows it.
\<close>

theorem wait_failure_stops_polling:
  assumes "k < budget"
    and "\<forall>j<k. \<not> terminal (probe j)"
    and "probe k \<in> set failure_set"
  shows "wait probe budget = (Failure, map probe [0..<Suc k])
         \<and> length (snd (wait probe budget)) = Suc k
         \<and> last (snd (wait probe budget)) = probe k"
proof -
  have "wait_from probe budget 0 = (Failure, map probe [0..<Suc (0 + k)])"
    by (rule wait_from_failure) (use assms in simp_all)
  then have w: "wait probe budget = (Failure, map probe [0..<Suc k])"
    by (simp add: wait_def)
  show ?thesis
    unfolding w by simp
qed

theorem wait_failure_stops_polling_witness:
  "wait probe_fails_third 10 = (Failure, [CREATE_PENDING, CREATE_IN_PROGRESS, CREATE_FAILED])"
proof -
  have a: "(2::nat) < 10" by simp
  have b: "\<forall>j<2::nat. \<not> terminal (probe_fails_third j)"
    by (simp add: probe_fails_third_def terminal_def success_set_def failure_set_def)
  have c: "probe_fails_third 2 \<in> set failure_set"
    by (simp add: probe_fails_third_def failure_set_def)
  have u: "map probe_fails_third [0..<Suc 2] = [CREATE_PENDING, CREATE_IN_PROGRESS, CREATE_FAILED]"
    by (simp add: upt_conv_Cons probe_fails_third_def)
  from wait_failure_stops_polling [OF a b c]
  have "wait probe_fails_third 10 = (Failure, map probe_fails_third [0..<Suc 2])"
    by (rule conjunct1)
  then show ?thesis
    by (simp only: u)
qed

text \<open>
  C3. When the probe reports no terminal status during the whole budget, the waiter
  still returns (it is a total function, and it issues exactly \<open>budget\<close> probe calls),
  and what it returns is the timeout outcome, which is neither the success outcome nor
  the explicit-failure outcome.
\<close>

theorem wait_timeout_within_budget:
  assumes "\<forall>j<budget. \<not> terminal (probe j)"
  shows "wait probe budget = (Timeout, map probe [0..<budget])
         \<and> length (snd (wait probe budget)) = budget
         \<and> fst (wait probe budget) \<noteq> Success
         \<and> fst (wait probe budget) \<noteq> Failure"
proof -
  have "wait_from probe budget 0 = (Timeout, map probe [0..<0 + budget])"
    by (rule wait_from_timeout) (use assms in simp)
  then have w: "wait probe budget = (Timeout, map probe [0..<budget])"
    by (simp add: wait_def)
  show ?thesis
    unfolding w by simp
qed

theorem wait_timeout_within_budget_witness:
  "wait probe_never_done 3 = (Timeout, [CREATE_PENDING, CREATE_IN_PROGRESS, CREATE_IN_PROGRESS])
   \<and> fst (wait probe_never_done 3) \<noteq> Success
   \<and> fst (wait probe_never_done 3) \<noteq> Failure"
proof -
  have a: "\<forall>j<3::nat. \<not> terminal (probe_never_done j)"
    by (simp add: probe_never_done_def terminal_def success_set_def failure_set_def)
  have u: "map probe_never_done [0..<3] = [CREATE_PENDING, CREATE_IN_PROGRESS, CREATE_IN_PROGRESS]"
    by (simp add: upt_conv_Cons probe_never_done_def)
  from wait_timeout_within_budget [OF a]
  show ?thesis
    by (simp only: u) simp
qed

section \<open>Running the notebook symbolically\<close>

lemmas step_defs =
  step0_config_def step0_clients_def step0_role_def
  step1_s3_client_def step1_account_def step1_upload_target_def step1_upload_meta_def
  step2a_create_dataset_group_def step2a_describe_def
  step2b_create_dataset_def step2b_describe_def
  step2c_create_dataset_def step2c_describe_def
  step2d_update_dataset_group_def step2d_describe_def
  step2e_create_import_job_def step2e_wait_def
  step2f_create_import_job_def step2f_wait_def
  step3_create_predictor_def step3_wait_def step3_describe_def
  step4_create_forecast_def step4_wait_def step4_describe_def
  step5_upload_cold_start_def step5_create_import_job_def step5_describe_def step5_wait_def
  step6_create_forecast_def step6_wait_def step6_describe_def
  step7_query_forecast_def
  step8_create_export_job_def step8_wait_def
  step9_delete_export_def step9_delete_forecasts_def step9_delete_predictor_def
  step9_delete_import_jobs_def step9_delete_datasets_def step9_delete_dataset_group_def
  emit_def response_def util_wait_status_def assert_status_def

lemma run_cells_Cons: "run_cells (c # cs) env s = continue cs env (c env s)"
  by (simp add: continue_def Let_def)

lemma continue_if:
  "continue cs env (if b then x else y) = (if b then continue cs env x else continue cs env y)"
  by simp

lemma continue_go: "halted s = None \<Longrightarrow> continue cs env s = run_cells cs env s"
  by (simp add: continue_def)

lemma continue_stop: "halted s = Some e \<Longrightarrow> continue cs env s = s"
  by (simp add: continue_def)

lemma trace_if: "trace (if b then x else y) = (if b then trace x else trace y)"
  by simp

lemma halted_if: "halted (if b then x else y) = (if b then halted x else halted y)"
  by simp

lemmas exec =
  run_cells_Cons run_cells.simps(1) continue_if continue_go continue_stop
  step_defs Let_def fresh_def trace_if halted_if

lemma summary_if: "summary (if b then x else y) = (if b then summary x else summary y)"
  by simp

text \<open>
  The one symbolic run of all cells: the log of a run is empty when the configuration
  is not set, and otherwise the written-out log up to and including the first wait that
  did not return success; the run ends as \<open>verdict\<close> says.
\<close>

lemma notebook_summary:
  "summary (notebook env) =
     (if text_widget_bucket env = [] \<or> text_widget_region env = [] then []
      else upto_failed_wait (script env), verdict env)"
  unfolding notebook_def cells_def
  by (simp add: exec summary_def summary_if script_def verdict_def eval_nat_numeral
        s3_data_path_def forecast_export_name_deep_ar_path_def
        del: run_cells.simps(2) cong: if_cong)

lemma run_log_shape:
  "run_log env =
     (if text_widget_bucket env = [] \<or> text_widget_region env = [] then []
      else upto_failed_wait (script env))"
  using notebook_summary [of env] by (simp add: summary_def run_log_def)

lemma halted_verdict: "halted (notebook env) = verdict env"
  using notebook_summary [of env] by (simp add: summary_def)

subsection \<open>Logs cut at a failed wait\<close>

lemma prefix_upto_failed_wait: "prefix (upto_failed_wait xs) xs"
  by (induction xs) auto

lemma run_log_prefix: "prefix (run_log env) (script env)"
  by (simp add: run_log_shape prefix_upto_failed_wait)

lemma upto_failed_wait_last:
  "i < length (upto_failed_wait xs) \<Longrightarrow> failed (upto_failed_wait xs ! i)
   \<Longrightarrow> length (upto_failed_wait xs) = Suc i"
proof (induction xs arbitrary: i)
  case Nil
  then show ?case by simp
next
  case (Cons e es)
  show ?case
  proof (cases "failed e")
    case True
    with Cons.prems show ?thesis by simp
  next
    case False
    show ?thesis
    proof (cases i)
      case 0
      with False Cons.prems show ?thesis by simp
    next
      case (Suc j)
      with False Cons.prems have "length (upto_failed_wait es) = Suc j"
        by (intro Cons.IH) simp_all
      with False Suc show ?thesis by simp
    qed
  qed
qed

lemma upto_failed_wait_ex:
  "e \<in> set (upto_failed_wait xs) \<Longrightarrow> failed e \<Longrightarrow> list_ex failed xs"
  by (induction xs) (auto split: if_splits)

lemma upto_failed_wait_id: "\<not> list_ex failed xs \<Longrightarrow> upto_failed_wait xs = xs"
  by (induction xs) auto

lemma completed_run:
  assumes "halted (notebook env) = None"
  shows "run_log env = script env" and "\<not> list_ex failed (script env)"
proof -
  from assms have v: "verdict env = None"
    by (simp add: halted_verdict)
  then show nf: "\<not> list_ex failed (script env)"
    by (simp add: verdict_def split: if_splits)
  from v have "text_widget_bucket env \<noteq> [] \<and> text_widget_region env \<noteq> []"
    by (simp add: verdict_def split: if_splits)
  with nf show "run_log env = script env"
    by (simp add: run_log_shape upto_failed_wait_id)
qed

lemma waits_succeed:
  "\<not> list_ex failed (script env) \<Longrightarrow>
     util_wait env 18 \<and> util_wait env 20 \<and> util_wait env 22 \<and> util_wait env 25
     \<and> util_wait env 30 \<and> util_wait env 32 \<and> util_wait env 36"
  by (simp add: script_def Let_def)

subsection \<open>Going through a log\<close>

lemma scan_nth:
  "scan P f s xs \<Longrightarrow> i < length xs \<Longrightarrow> P (foldl f s (take i xs)) (xs ! i)"
proof (induction xs arbitrary: s i)
  case Nil
  then show ?case by simp
next
  case (Cons x xs)
  show ?case
  proof (cases i)
    case 0
    with Cons.prems show ?thesis by simp
  next
    case (Suc j)
    with Cons.prems have "P (foldl f (f s x) (take j xs)) (xs ! j)"
      by (intro Cons.IH) simp_all
    with Suc show ?thesis by simp
  qed
qed

lemma scan_prefix: "prefix ys xs \<Longrightarrow> scan P f s xs \<Longrightarrow> scan P f s ys"
proof (induction ys arbitrary: xs s)
  case Nil
  then show ?case by simp
next
  case (Cons y ys)
  from Cons.prems(1) obtain xs' where xs: "xs = y # xs'" and p: "prefix ys xs'"
    by (cases xs) auto
  from Cons.prems(2) xs have "P s y" and "scan P f (f s y) xs'"
    by simp_all
  with Cons.IH [OF p] show ?case by simp
qed

lemma foldl_snoc: "foldl snoc pre xs = pre @ xs"
  by (induction xs arbitrary: pre) (simp_all add: snoc_def)

lemma foldl_collect: "foldl (collect g) acc xs = acc @ concat (map g xs)"
  by (induction xs arbitrary: acc) (simp_all add: collect_def)

subsection \<open>The three concrete runs\<close>

lemma run_log_env_ok:
  "run_log env_ok =
     [Session ''us-west-2'', Client ''forecast'', Client ''forecastquery'', Role,
      Client ''s3'', Client ''sts'', Called get_caller_identity,
      Called (upload_file localFilePath ''my-bucket'' targetTimeseriesDatakey),
      Called (upload_file localItemMetaDataFilePath ''my-bucket'' itemMetaDatakey),
      Created (create_dataset_group ''CUSTOM'' dataset_group []) ''arn:dataset-group'',
      Called (describe_dataset_group ''arn:dataset-group''),
      Created (create_dataset ''CUSTOM'' ''TARGET_TIME_SERIES'' ts_dataset_name (Some freq)
                 ts_schema_val) ''arn:dataset-ts'',
      Called (describe_dataset ''arn:dataset-ts''),
      Created (create_dataset ''CUSTOM'' ''ITEM_METADATA'' item_metadata_dataset_name None
                 meta_schema_val) ''arn:dataset-meta'',
      Called (describe_dataset ''arn:dataset-meta''),
      Called (update_dataset_group ''arn:dataset-group''
                [''arn:dataset-ts'', ''arn:dataset-meta'']),
      Called (describe_dataset_group ''arn:dataset-group''),
      Created (create_dataset_import_job dataset_group ''arn:dataset-ts''
                 (''s3://my-bucket/'' @ targetTimeseriesDatakey) ''arn:role''
                 (Some timestamp_format)) ''arn:import-ts'',
      Waited (describe_dataset_import_job ''arn:import-ts'') True,
      Created (create_dataset_import_job dataset_group ''arn:dataset-meta''
                 (''s3://my-bucket/'' @ itemMetaDatakey) ''arn:role'' None) ''arn:import-meta'',
      Waited (describe_dataset_import_job ''arn:import-meta'') True,
      Created (create_predictor predictor_name_deep_ar algorithm_arn_deep_ar_plus
                 forecast_horizon False False ''arn:dataset-group'' freq) ''arn:predictor'',
      Waited (describe_predictor ''arn:predictor'') True,
      Called (describe_predictor ''arn:predictor''),
      Created (create_forecast forecast_name_deep_ar ''arn:predictor'') ''arn:forecast-1'',
      Waited (describe_forecast ''arn:forecast-1'') True,
      Called (describe_forecast ''arn:forecast-1''),
      Called (upload_file localColdStartDataFilePath ''my-bucket''
                coldStartTargetTimeseriesDatakey),
      Created (create_dataset_import_job (dataset_group @ ''_2'') ''arn:dataset-ts''
                 (''s3://my-bucket/'' @ coldStartTargetTimeseriesDatakey) ''arn:role''
                 (Some timestamp_format)) ''arn:import-cold-start'',
      Called (describe_dataset_import_job ''arn:import-cold-start''),
      Waited (describe_dataset_import_job ''arn:import-cold-start'') True,
      Created (create_forecast forecast_name_deep_ar_2 ''arn:predictor'') ''arn:forecast-2'',
      Waited (describe_forecast ''arn:forecast-2'') True,
      Called (describe_forecast ''arn:forecast-2''),
      Called (query_forecast ''arn:forecast-2'' [(''item_id'', ''client_370'')]),
      Created (create_forecast_export_job forecast_export_name_deep_ar ''arn:forecast-2''
                 (''s3://my-bucket//'' @ forecast_export_name_deep_ar) ''arn:role'')
              ''arn:export'',
      Waited (describe_forecast_export_job ''arn:export'') True,
      Wait_till_delete (delete_forecast_export_job ''arn:export''),
      Wait_till_delete (delete_forecast ''arn:forecast-1''),
      Wait_till_delete (delete_forecast ''arn:forecast-2''),
      Wait_till_delete (delete_predictor ''arn:predictor''),
      Wait_till_delete (delete_dataset_import_job ''arn:import-ts''),
      Wait_till_delete (delete_dataset_import_job ''arn:import-meta''),
      Wait_till_delete (delete_dataset_import_job ''arn:import-cold-start''),
      Wait_till_delete (delete_dataset ''arn:dataset-ts''),
      Wait_till_delete (delete_dataset ''arn:dataset-meta''),
      Called (delete_dataset_group ''arn:dataset-group'')]"
  by (simp add: run_log_shape script_def Let_def env_ok_def arns_def)

lemma halted_env_ok: "halted (notebook env_ok) = None"
  by (simp add: halted_verdict verdict_def script_def Let_def env_ok_def)

lemma length_run_log_env_ok: "length (run_log env_ok) = 47"
  by (simp add: run_log_env_ok)

lemma run_log_env_failed:
  "run_log env_failed =
     take 22 (run_log env_ok) @ [Waited (describe_predictor ''arn:predictor'') False]"
  unfolding run_log_env_ok
  by (simp add: run_log_shape script_def Let_def env_failed_def env_ok_def arns_def)

lemma length_run_log_env_failed: "length (run_log env_failed) = 23"
  by (simp add: run_log_env_failed length_run_log_env_ok)

lemma halted_env_failed: "halted (notebook env_failed) = Some (AssertionError [])"
  by (simp add: halted_verdict verdict_def script_def Let_def env_failed_def env_ok_def)

section \<open>Properties of the notebook\<close>

text \<open>
  C10. The first cell that acts is the one that asserts the configuration: when the
  bucket name or the region is empty, the run ends with the assertion error of that
  cell and its log is empty, so no session or client was constructed and no remote
  call was issued.
\<close>

theorem config_asserted_before_remote_calls:
  "text_widget_bucket env = [] \<or> text_widget_region env = [] \<Longrightarrow>
     run_log env = [] \<and>
     halted (notebook env) =
       Some (AssertionError (if text_widget_bucket env = [] then ''bucketName not set.''
                             else ''region not set.''))"
  by (auto simp add: run_log_shape halted_verdict verdict_def)

theorem config_asserted_before_remote_calls_witness:
  "run_log env_unset = [] \<and>
   halted (notebook env_unset) = Some (AssertionError ''bucketName not set.'')"
proof -
  have e: "text_widget_bucket env_unset = []"
    by (simp add: env_unset_def)
  then have "text_widget_bucket env_unset = [] \<or> text_widget_region env_unset = []"
    by simp
  from config_asserted_before_remote_calls [OF this] e show ?thesis
    by simp
qed

text \<open>
  C1. Whenever a wait of the run returns a value that is not success, the run ends
  with an assertion error and that wait is its last interaction: nothing is issued
  after it. A run that reaches its end has performed the seven waits (target time
  series import, item metadata import, predictor, first forecast, cold-start import,
  second forecast, export), each on the resource created just before and each with
  success.
\<close>

theorem failed_wait_raises_assertion:
  "(\<forall>i<length (run_log env). \<forall>p. run_log env ! i = Waited p False \<longrightarrow>
       halted (notebook env) = Some (AssertionError []) \<and> length (run_log env) = Suc i)
   \<and> (halted (notebook env) = None \<longrightarrow>
        concat (map waited (run_log env)) =
          [(describe_dataset_import_job (create_response env 17), True),
           (describe_dataset_import_job (create_response env 19), True),
           (describe_predictor (create_response env 21), True),
           (describe_forecast (create_response env 24), True),
           (describe_dataset_import_job (create_response env 28), True),
           (describe_forecast (create_response env 31), True),
           (describe_forecast_export_job (create_response env 35), True)])"
proof -
  have a: "\<forall>i<length (run_log env). \<forall>p. run_log env ! i = Waited p False \<longrightarrow>
       halted (notebook env) = Some (AssertionError []) \<and> length (run_log env) = Suc i"
  proof (intro allI impI)
    fix i p
    assume i: "i < length (run_log env)" and w: "run_log env ! i = Waited p False"
    from i have set: "text_widget_bucket env \<noteq> [] \<and> text_widget_region env \<noteq> []"
      by (auto simp add: run_log_shape split: if_splits)
    then have r: "run_log env = upto_failed_wait (script env)"
      by (simp add: run_log_shape)
    from w have f: "failed (run_log env ! i)"
      by simp
    from i f have l: "length (run_log env) = Suc i"
      unfolding r by (rule upto_failed_wait_last)
    from i have "run_log env ! i \<in> set (upto_failed_wait (script env))"
      unfolding r by (rule nth_mem)
    then have "list_ex failed (script env)"
      using f by (rule upto_failed_wait_ex)
    with set have "halted (notebook env) = Some (AssertionError [])"
      by (simp add: halted_verdict verdict_def)
    with l show "halted (notebook env) = Some (AssertionError []) \<and>
          length (run_log env) = Suc i"
      by (rule conjI [rotated])
  qed
  have b: "halted (notebook env) = None \<longrightarrow>
        concat (map waited (run_log env)) =
          [(describe_dataset_import_job (create_response env 17), True),
           (describe_dataset_import_job (create_response env 19), True),
           (describe_predictor (create_response env 21), True),
           (describe_forecast (create_response env 24), True),
           (describe_dataset_import_job (create_response env 28), True),
           (describe_forecast (create_response env 31), True),
           (describe_forecast_export_job (create_response env 35), True)]"
  proof
    assume h: "halted (notebook env) = None"
    from waits_succeed [OF completed_run(2) [OF h]]
    show "concat (map waited (run_log env)) =
          [(describe_dataset_import_job (create_response env 17), True),
           (describe_dataset_import_job (create_response env 19), True),
           (describe_predictor (create_response env 21), True),
           (describe_forecast (create_response env 24), True),
           (describe_dataset_import_job (create_response env 28), True),
           (describe_forecast (create_response env 31), True),
           (describe_forecast_export_job (create_response env 35), True)]"
      unfolding completed_run(1) [OF h] by (simp add: script_def Let_def)
  qed
  from a b show ?thesis
    by (rule conjI)
qed

theorem failed_wait_raises_assertion_witness:
  "run_log env_failed ! 22 = Waited (describe_predictor ''arn:predictor'') False
   \<and> halted (notebook env_failed) = Some (AssertionError [])
   \<and> length (run_log env_failed) = 23
   \<and> halted (notebook env_ok) = None
   \<and> map snd (concat (map waited (run_log env_ok))) = [True, True, True, True, True, True, True]"
proof -
  have i: "22 < length (run_log env_failed)"
    by (simp add: length_run_log_env_failed)
  have w: "run_log env_failed ! 22 = Waited (describe_predictor ''arn:predictor'') False"
    by (simp add: run_log_env_failed run_log_env_ok)
  from failed_wait_raises_assertion [of env_failed] i w
  have f: "halted (notebook env_failed) = Some (AssertionError []) \<and>
           length (run_log env_failed) = Suc 22"
    by blast
  from failed_wait_raises_assertion [of env_ok] halted_env_ok
  have "concat (map waited (run_log env_ok)) =
          [(describe_dataset_import_job (create_response env_ok 17), True),
           (describe_dataset_import_job (create_response env_ok 19), True),
           (describe_predictor (create_response env_ok 21), True),
           (describe_forecast (create_response env_ok 24), True),
           (describe_dataset_import_job (create_response env_ok 28), True),
           (describe_forecast (create_response env_ok 31), True),
           (describe_forecast_export_job (create_response env_ok 35), True)]"
    by blast
  then have s: "map snd (concat (map waited (run_log env_ok))) =
      [True, True, True, True, True, True, True]"
    by simp
  from w f s halted_env_ok show ?thesis
    by simp
qed

text \<open>
  C5. At every \<open>create_*\<close> call of the run no asynchronous operation is in flight:
  each asynchronous resource created before has been waited for, on its own
  \<open>describe_*\<close> probe and with success. At no point of the run is more than one
  operation in flight, and none is left at the end of a run that reaches its end.
\<close>

theorem one_operation_in_flight:
  "(\<forall>i<length (run_log env).
       (is_create (run_log env ! i) \<longrightarrow> in_flight (take i (run_log env)) = [])
       \<and> length (in_flight (take (Suc i) (run_log env))) \<le> 1)
   \<and> (halted (notebook env) = None \<longrightarrow> in_flight (run_log env) = [])"
proof -
  have s: "scan (\<lambda>fl e. (is_create e \<longrightarrow> fl = []) \<and> length (track fl e) \<le> 1) track []
             (run_log env)"
    by (simp add: run_log_shape script_def Let_def)
  have a: "\<forall>i<length (run_log env).
       (is_create (run_log env ! i) \<longrightarrow> in_flight (take i (run_log env)) = [])
       \<and> length (in_flight (take (Suc i) (run_log env))) \<le> 1"
  proof (intro allI impI)
    fix i
    assume i: "i < length (run_log env)"
    have t: "foldl track [] (take (Suc i) (run_log env)) =
             track (foldl track [] (take i (run_log env))) (run_log env ! i)"
      using i by (simp add: take_Suc_conv_app_nth)
    from scan_nth [OF s i]
    show "(is_create (run_log env ! i) \<longrightarrow> in_flight (take i (run_log env)) = [])
       \<and> length (in_flight (take (Suc i) (run_log env))) \<le> 1"
      unfolding in_flight_def t .
  qed
  have b: "halted (notebook env) = None \<longrightarrow> in_flight (run_log env) = []"
  proof
    assume h: "halted (notebook env) = None"
    from waits_succeed [OF completed_run(2) [OF h]]
    show "in_flight (run_log env) = []"
      unfolding completed_run(1) [OF h] by (simp add: script_def Let_def in_flight_def)
  qed
  from a b show ?thesis
    by (rule conjI)
qed

theorem one_operation_in_flight_witness:
  "is_create (run_log env_ok ! 19)
   \<and> in_flight (take 18 (run_log env_ok)) = [describe_dataset_import_job ''arn:import-ts'']
   \<and> in_flight (take 19 (run_log env_ok)) = []
   \<and> in_flight (run_log env_ok) = []"
proof -
  have i: "19 < length (run_log env_ok)"
    by (simp add: length_run_log_env_ok)
  have c: "is_create (run_log env_ok ! 19)"
    by (simp add: run_log_env_ok)
  have f: "in_flight (take 18 (run_log env_ok)) = [describe_dataset_import_job ''arn:import-ts'']"
    by (simp add: run_log_env_ok in_flight_def)
  from one_operation_in_flight [of env_ok] i c
  have e: "in_flight (take 19 (run_log env_ok)) = []"
    by blast
  from one_operation_in_flight [of env_ok] halted_env_ok
  have l: "in_flight (run_log env_ok) = []"
    by blast
  from c f e l show ?thesis
    by simp
qed

text \<open>
  C9. Every identifier of a created resource that an interaction of the run passes to
  the service (to a describe, a wait probe, a delete, or as an argument of a later
  create, update or query) is the ARN that the response to an earlier \<open>create_*\<close> call
  for a resource of that kind carried, unchanged. In a run that reaches its end the
  resources deleted are the resources created.
\<close>

theorem identifiers_come_from_create_responses:
  "(\<forall>i<length (run_log env). \<forall>x\<in>set (identifiers (run_log env ! i)).
       x \<in> set (concat (map created (take i (run_log env)))))
   \<and> (halted (notebook env) = None \<longrightarrow>
        set (deleted (run_log env)) = set (concat (map created (run_log env))))"
proof -
  have "scan (\<lambda>acc e. \<forall>x\<in>set (identifiers e). x \<in> set acc) (collect created) []
          (script env)"
    by (simp add: script_def Let_def collect_def)
  with run_log_prefix
  have s: "scan (\<lambda>acc e. \<forall>x\<in>set (identifiers e). x \<in> set acc) (collect created) []
          (run_log env)"
    by (rule scan_prefix)
  have a: "\<forall>i<length (run_log env). \<forall>x\<in>set (identifiers (run_log env ! i)).
       x \<in> set (concat (map created (take i (run_log env))))"
  proof (intro allI impI)
    fix i
    assume i: "i < length (run_log env)"
    from scan_nth [OF s i]
    show "\<forall>x\<in>set (identifiers (run_log env ! i)).
       x \<in> set (concat (map created (take i (run_log env))))"
      by (simp add: foldl_collect)
  qed
  have b: "halted (notebook env) = None \<longrightarrow>
        set (deleted (run_log env)) = set (concat (map created (run_log env)))"
  proof
    assume h: "halted (notebook env) = None"
    show "set (deleted (run_log env)) = set (concat (map created (run_log env)))"
      unfolding completed_run(1) [OF h]
      by (auto simp add: script_def Let_def deleted_def)
  qed
  from a b show ?thesis
    by (rule conjI)
qed

theorem identifiers_come_from_create_responses_witness:
  "identifiers (run_log env_ok ! 40) = [(Predictor, ''arn:predictor'')]
   \<and> (Predictor, ''arn:predictor'') \<in> set (concat (map created (take 40 (run_log env_ok))))
   \<and> set (deleted (run_log env_ok)) = set (concat (map created (run_log env_ok)))"
proof -
  have i: "40 < length (run_log env_ok)"
    by (simp add: length_run_log_env_ok)
  have u: "identifiers (run_log env_ok ! 40) = [(Predictor, ''arn:predictor'')]"
    by (simp add: run_log_env_ok)
  from identifiers_come_from_create_responses [of env_ok] i
  have "\<forall>x\<in>set (identifiers (run_log env_ok ! 40)).
          x \<in> set (concat (map created (take 40 (run_log env_ok))))"
    by blast
  then have m: "(Predictor, ''arn:predictor'') \<in>
      set (concat (map created (take 40 (run_log env_ok))))"
    unfolding u by simp
  from identifiers_come_from_create_responses [of env_ok] halted_env_ok
  have d: "set (deleted (run_log env_ok)) = set (concat (map created (run_log env_ok)))"
    by blast
  from u m d show ?thesis
    by simp
qed

text \<open>
  C6. Whenever the run calls \<open>delete_dataset_group\<close>, the group has two member
  datasets, the target time series dataset and the item metadata dataset that the run
  created, and for both of them \<open>wait_till_delete\<close> on \<open>delete_dataset\<close> has been
  run before. A run that reaches its end does end with that call.
\<close>

theorem datasets_deleted_before_group:
  "(\<forall>i<length (run_log env). \<forall>g. run_log env ! i = Called (delete_dataset_group g) \<longrightarrow>
       (\<exists>ts meta. members (take i (run_log env)) g = [ts, meta]
          \<and> Created (create_dataset ''CUSTOM'' ''TARGET_TIME_SERIES'' ts_dataset_name
                        (Some freq) ts_schema_val) ts \<in> set (take i (run_log env))
          \<and> Created (create_dataset ''CUSTOM'' ''ITEM_METADATA'' item_metadata_dataset_name
                        None meta_schema_val) meta \<in> set (take i (run_log env))
          \<and> Wait_till_delete (delete_dataset ts) \<in> set (take i (run_log env))
          \<and> Wait_till_delete (delete_dataset meta) \<in> set (take i (run_log env))))
   \<and> (halted (notebook env) = None \<longrightarrow>
        last (run_log env) = Called (delete_dataset_group (create_response env 9)))"
proof -
  let ?P = "\<lambda>pre e. \<forall>g. e = Called (delete_dataset_group g) \<longrightarrow>
       (\<exists>ts meta. members pre g = [ts, meta]
          \<and> Created (create_dataset ''CUSTOM'' ''TARGET_TIME_SERIES'' ts_dataset_name
                        (Some freq) ts_schema_val) ts \<in> set pre
          \<and> Created (create_dataset ''CUSTOM'' ''ITEM_METADATA'' item_metadata_dataset_name
                        None meta_schema_val) meta \<in> set pre
          \<and> Wait_till_delete (delete_dataset ts) \<in> set pre
          \<and> Wait_till_delete (delete_dataset meta) \<in> set pre)"
  have "scan ?P snoc [] (script env)"
    by (simp add: script_def Let_def snoc_def members_def)
  with run_log_prefix have s: "scan ?P snoc [] (run_log env)"
    by (rule scan_prefix)
  have a: "\<forall>i<length (run_log env). ?P (take i (run_log env)) (run_log env ! i)"
  proof (rule allI, rule impI)
    fix i
    assume i: "i < length (run_log env)"
    from scan_nth [OF s i] show "?P (take i (run_log env)) (run_log env ! i)"
      by (simp only: foldl_snoc append_Nil)
  qed
  have b: "halted (notebook env) = None \<longrightarrow>
        last (run_log env) = Called (delete_dataset_group (create_response env 9))"
  proof
    assume h: "halted (notebook env) = None"
    show "last (run_log env) = Called (delete_dataset_group (create_response env 9))"
      unfolding completed_run(1) [OF h] by (simp add: script_def Let_def)
  qed
  from a b show ?thesis
    by (rule conjI)
qed

theorem datasets_deleted_before_group_witness:
  "run_log env_ok ! 46 = Called (delete_dataset_group ''arn:dataset-group'')
   \<and> members (take 46 (run_log env_ok)) ''arn:dataset-group''
       = [''arn:dataset-ts'', ''arn:dataset-meta'']
   \<and> Wait_till_delete (delete_dataset ''arn:dataset-ts'') \<in> set (take 46 (run_log env_ok))
   \<and> Wait_till_delete (delete_dataset ''arn:dataset-meta'') \<in> set (take 46 (run_log env_ok))
   \<and> last (run_log env_ok) = Called (delete_dataset_group ''arn:dataset-group'')"
proof -
  have i: "46 < length (run_log env_ok)"
    by (simp add: length_run_log_env_ok)
  have c: "run_log env_ok ! 46 = Called (delete_dataset_group ''arn:dataset-group'')"
    by (simp add: run_log_env_ok)
  have m: "members (take 46 (run_log env_ok)) ''arn:dataset-group''
       = [''arn:dataset-ts'', ''arn:dataset-meta'']"
    by (simp add: run_log_env_ok members_def)
  from datasets_deleted_before_group [of env_ok] i c
  obtain ts meta where tm: "members (take 46 (run_log env_ok)) ''arn:dataset-group'' = [ts, meta]"
    and d1: "Wait_till_delete (delete_dataset ts) \<in> set (take 46 (run_log env_ok))"
    and d2: "Wait_till_delete (delete_dataset meta) \<in> set (take 46 (run_log env_ok))"
    by blast
  from tm m have e: "ts = ''arn:dataset-ts''" "meta = ''arn:dataset-meta''"
    by simp_all
  have r: "create_response env_ok 9 = ''arn:dataset-group''"
    by (simp add: env_ok_def arns_def)
  from datasets_deleted_before_group [of env_ok] halted_env_ok
  have "last (run_log env_ok) = Called (delete_dataset_group (create_response env_ok 9))"
    by blast
  then have l: "last (run_log env_ok) = Called (delete_dataset_group ''arn:dataset-group'')"
    by (simp only: r)
  from c m d1 d2 l show ?thesis
    unfolding e by simp
qed

text \<open>
  C7. The schemas that a run declares to the service are, in this order, the schema of
  the target time series dataset with the attributes (timestamp: timestamp,
  target_value: float, item_id: string) and the schema of the item metadata dataset with
  the attributes (item_id: string, category: string); a run that stops at the
  configuration assertions declares none.
\<close>

theorem declared_schemas:
  "concat (map declares (run_log env)) =
     (if text_widget_bucket env = [] \<or> text_widget_region env = [] then []
      else [(''TARGET_TIME_SERIES'',
               [(''timestamp'', ''timestamp''), (''target_value'', ''float''),
                (''item_id'', ''string'')]),
            (''ITEM_METADATA'',
               [(''item_id'', ''string''), (''category'', ''string'')])])"
  by (simp add: run_log_shape script_def Let_def ts_schema_val_def meta_schema_val_def)

theorem declared_schemas_witness:
  "concat (map declares (run_log env_ok)) =
     [(''TARGET_TIME_SERIES'',
         [(''timestamp'', ''timestamp''), (''target_value'', ''float''),
          (''item_id'', ''string'')]),
      (''ITEM_METADATA'', [(''item_id'', ''string''), (''category'', ''string'')])]
   \<and> concat (map declares (run_log env_unset)) = []"
proof -
  have a: "\<not> (text_widget_bucket env_ok = [] \<or> text_widget_region env_ok = [])"
    by (simp add: env_ok_def)
  have b: "text_widget_bucket env_unset = [] \<or> text_widget_region env_unset = []"
    by (simp add: env_unset_def)
  from declared_schemas [of env_ok] declared_schemas [of env_unset] show ?thesis
    by (simp only: a b if_True if_False simp_thms)
qed

text \<open>
  C8. Every probe that a run hands to \<open>util.wait\<close> is one of
  \<open>describe_dataset_import_job\<close>, \<open>describe_predictor\<close>, \<open>describe_forecast\<close> and
  \<open>describe_forecast_export_job\<close>, which only read the resource. Each of the seven
  wait cells logs that one wait and nothing else, and leaves every variable of the
  notebook but \<open>status\<close> as it was.
\<close>

theorem probes_are_read_only:
  "(Waited p r \<in> set (run_log env) \<longrightarrow> polls p \<and> read_only p)
   \<and> (\<forall>cell\<in>set wait_cells.
        (cell env s)\<lparr>status := status s, trace := trace s, halted := halted s\<rparr> = s
        \<and> (\<exists>q. polls q \<and> read_only q
               \<and> trace (cell env s) = trace s @ [Waited q (status (cell env s))]))"
proof -
  have "\<forall>e\<in>set (script env). \<forall>p r. e = Waited p r \<longrightarrow> polls p \<and> read_only p"
    by (simp add: script_def Let_def)
  moreover have "set (run_log env) \<subseteq> set (script env)"
    using run_log_prefix by (rule set_mono_prefix)
  ultimately have a: "Waited p r \<in> set (run_log env) \<longrightarrow> polls p \<and> read_only p"
    by blast
  have b: "\<forall>cell\<in>set wait_cells.
        (cell env s)\<lparr>status := status s, trace := trace s, halted := halted s\<rparr> = s
        \<and> (\<exists>q. polls q \<and> read_only q
               \<and> trace (cell env s) = trace s @ [Waited q (status (cell env s))])"
    by (simp add: wait_cells_def step2e_wait_def step2f_wait_def step3_wait_def
          step4_wait_def step5_wait_def step6_wait_def step8_wait_def
          util_wait_status_def assert_status_def emit_def Let_def)
  from a b show ?thesis
    by (rule conjI)
qed

theorem probes_are_read_only_witness:
  "Waited (describe_predictor ''arn:predictor'') True \<in> set (run_log env_ok)
   \<and> polls (describe_predictor ''arn:predictor'')
   \<and> read_only (describe_predictor ''arn:predictor'')
   \<and> (step3_wait env_ok fresh)\<lparr>status := status fresh, trace := trace fresh,
        halted := halted fresh\<rparr> = fresh"
proof -
  have w: "Waited (describe_predictor ''arn:predictor'') True \<in> set (run_log env_ok)"
    by (simp add: run_log_env_ok)
  have c: "step3_wait \<in> set wait_cells"
    by (simp add: wait_cells_def)
  from probes_are_read_only [of "describe_predictor ''arn:predictor''" True env_ok fresh] w
  have r: "polls (describe_predictor ''arn:predictor'')
           \<and> read_only (describe_predictor ''arn:predictor'')"
    by blast
  from probes_are_read_only [of "describe_predictor ''arn:predictor''" True env_ok fresh] c
  have "(step3_wait env_ok fresh)\<lparr>status := status fresh, trace := trace fresh,
        halted := halted fresh\<rparr> = fresh"
    by blast
  with w r show ?thesis
    by simp
qed

subsection \<open>The order of the lifecycle calls\<close>

lemma stages_append: "stages (xs @ ys) = stages xs @ stages ys"
  by (simp add: stages_def List.map_filter_def)

lemma stages_prefix: "prefix xs ys \<Longrightarrow> prefix (stages xs) (stages ys)"
  by (auto simp add: prefix_def stages_append)

lemma stages_script: "stages (script env) = script_order"
  by (simp add: script_def Let_def stages_def List.map_filter_simps script_order_def)

text \<open>
  C4, as stated, fails: the run in which everything succeeds does not go through the
  stages of the lifecycle in their listed order, because the cold-start import job is
  created after the predictor and the first forecast; and its deletions are not the
  reverse of its creations, because forecasts, import jobs and datasets are each
  deleted in the order of their creation.
\<close>

theorem lifecycle_order_counterexample:
  "\<not> sorted (stages (run_log env_ok))
   \<and> deleted (run_log env_ok) \<noteq> rev (concat (map created (run_log env_ok)))"
  by (simp add: run_log_env_ok stages_def List.map_filter_simps deleted_def)

text \<open>
  C4, amended. The lifecycle calls of a run follow one fixed order: create dataset
  group, create the two datasets, update the dataset group, the import jobs of the
  target time series and of the item metadata, train the predictor, generate the first
  forecast, then the cold-start import job and the second forecast, query, export, and
  finally the deletions by kind (export job, both forecasts, predictor, the three import
  jobs, both datasets, dataset group), each kind in the order of creation. A run that
  reaches its end issues exactly this sequence, and a run ended by an assertion issues a
  prefix of it.
\<close>

theorem lifecycle_calls_follow_script_order:
  "prefix (stages (run_log env)) script_order
   \<and> (halted (notebook env) = None \<longrightarrow>
        stages (run_log env) = script_order
        \<and> concat (map created (run_log env)) =
            [(Dataset_group, create_response env 9),
             (Dataset, create_response env 11),
             (Dataset, create_response env 13),
             (Dataset_import_job, create_response env 17),
             (Dataset_import_job, create_response env 19),
             (Predictor, create_response env 21),
             (Forecast, create_response env 24),
             (Dataset_import_job, create_response env 28),
             (Forecast, create_response env 31),
             (Forecast_export_job, create_response env 35)]
        \<and> deleted (run_log env) =
            [(Forecast_export_job, create_response env 35),
             (Forecast, create_response env 24),
             (Forecast, create_response env 31),
             (Predictor, create_response env 21),
             (Dataset_import_job, create_response env 17),
             (Dataset_import_job, create_response env 19),
             (Dataset_import_job, create_response env 28),
             (Dataset, create_response env 11),
             (Dataset, create_response env 13),
             (Dataset_group, create_response env 9)])"
proof -
  have a: "prefix (stages (run_log env)) script_order"
    using stages_prefix [OF run_log_prefix, of env] by (simp only: stages_script)
  have b: "halted (notebook env) = None \<longrightarrow>
        stages (run_log env) = script_order
        \<and> concat (map created (run_log env)) =
            [(Dataset_group, create_response env 9),
             (Dataset, create_response env 11),
             (Dataset, create_response env 13),
             (Dataset_import_job, create_response env 17),
             (Dataset_import_job, create_response env 19),
             (Predictor, create_response env 21),
             (Forecast, create_response env 24),
             (Dataset_import_job, create_response env 28),
             (Forecast, create_response env 31),
             (Forecast_export_job, create_response env 35)]
        \<and> deleted (run_log env) =
            [(Forecast_export_job, create_response env 35),
             (Forecast, create_response env 24),
             (Forecast, create_response env 31),
             (Predictor, create_response env 21),
             (Dataset_import_job, create_response env 17),
             (Dataset_import_job, create_response env 19),
             (Dataset_import_job, create_response env 28),
             (Dataset, create_response env 11),
             (Dataset, create_response env 13),
             (Dataset_group, create_response env 9)]"
  proof
    assume h: "halted (notebook env) = None"
    have s: "stages (run_log env) = script_order"
      unfolding completed_run(1) [OF h] by (rule stages_script)
    have c: "concat (map created (run_log env)) =
            [(Dataset_group, create_response env 9),
             (Dataset, create_response env 11),
             (Dataset, create_response env 13),
             (Dataset_import_job, create_response env 17),
             (Dataset_import_job, create_response env 19),
             (Predictor, create_response env 21),
             (Forecast, create_response env 24),
             (Dataset_import_job, create_response env 28),
             (Forecast, create_response env 31),
             (Forecast_export_job, create_response env 35)]"
      unfolding completed_run(1) [OF h] by (simp add: script_def Let_def)
    have d: "deleted (run_log env) =
            [(Forecast_export_job, create_response env 35),
             (Forecast, create_response env 24),
             (Forecast, create_response env 31),
             (Predictor, create_response env 21),
             (Dataset_import_job, create_response env 17),
             (Dataset_import_job, create_response env 19),
             (Dataset_import_job, create_response env 28),
             (Dataset, create_response env 11),
             (Dataset, create_response env 13),
             (Dataset_group, create_response env 9)]"
      unfolding completed_run(1) [OF h] by (simp add: script_def Let_def deleted_def)
    from s c d show "stages (run_log env) = script_order
        \<and> concat (map created (run_log env)) =
            [(Dataset_group, create_response env 9),
             (Dataset, create_response env 11),
             (Dataset, create_response env 13),
             (Dataset_import_job, create_response env 17),
             (Dataset_import_job, create_response env 19),
             (Predictor, create_response env 21),
             (Forecast, create_response env 24),
             (Dataset_import_job, create_response env 28),
             (Forecast, create_response env 31),
             (Forecast_export_job, create_response env 35)]
        \<and> deleted (run_log env) =
            [(Forecast_export_job, create_response env 35),
             (Forecast, create_response env 24),
             (Forecast, create_response env 31),
             (Predictor, create_response env 21),
             (Dataset_import_job, create_response env 17),
             (Dataset_import_job, create_response env 19),
             (Dataset_import_job, create_response env 28),
             (Dataset, create_response env 11),
             (Dataset, create_response env 13),
             (Dataset_group, create_response env 9)]"
      by (intro conjI)
  qed
  from a b show ?thesis
    by (rule conjI)
qed

theorem lifecycle_calls_follow_script_order_witness:
  "stages (run_log env_ok) =
     [0, 1, 1, 2, 3, 3, 4, 5, 3, 5, 6, 7, 8, 9, 9, 10, 11, 11, 11, 12, 12, 13]
   \<and> map snd (deleted (run_log env_ok)) =
     [''arn:export'', ''arn:forecast-1'', ''arn:forecast-2'', ''arn:predictor'',
      ''arn:import-ts'', ''arn:import-meta'', ''arn:import-cold-start'',
      ''arn:dataset-ts'', ''arn:dataset-meta'', ''arn:dataset-group'']
   \<and> stages (run_log env_failed) = [0, 1, 1, 2, 3, 3, 4]"
proof -
  note full = lifecycle_calls_follow_script_order [of env_ok, THEN conjunct2, rule_format,
      OF halted_env_ok]
  from full have "stages (run_log env_ok) = script_order"
    by (rule conjunct1)
  then have a: "stages (run_log env_ok) =
     [0, 1, 1, 2, 3, 3, 4, 5, 3, 5, 6, 7, 8, 9, 9, 10, 11, 11, 11, 12, 12, 13]"
    by (simp only: script_order_def)
  from full have "deleted (run_log env_ok) =
            [(Forecast_export_job, create_response env_ok 35),
             (Forecast, create_response env_ok 24),
             (Forecast, create_response env_ok 31),
             (Predictor, create_response env_ok 21),
             (Dataset_import_job, create_response env_ok 17),
             (Dataset_import_job, create_response env_ok 19),
             (Dataset_import_job, create_response env_ok 28),
             (Dataset, create_response env_ok 11),
             (Dataset, create_response env_ok 13),
             (Dataset_group, create_response env_ok 9)]"
    by (rule conjunct2 [THEN conjunct2])
  then have d: "map snd (deleted (run_log env_ok)) =
     [''arn:export'', ''arn:forecast-1'', ''arn:forecast-2'', ''arn:predictor'',
      ''arn:import-ts'', ''arn:import-meta'', ''arn:import-cold-start'',
      ''arn:dataset-ts'', ''arn:dataset-meta'', ''arn:dataset-group'']"
    by (simp add: env_ok_def arns_def)
  have b: "stages (run_log env_failed) = [0, 1, 1, 2, 3, 3, 4]"
    by (simp add: run_log_env_failed run_log_env_ok stages_def List.map_filter_simps)
  from a d b show ?thesis
    by (intro conjI)
qed

end
